theory Spec2Isabelle
  imports Main "HOL-Library.Word"
begin

unbundle bit_operations_syntax

section \<open>Job Manager low-level API (mali_kbase_jm.h): data model\<close>

type_synonym u8 = "8 word"
type_synonym u32 = "32 word"

text \<open>
  A \<open>kbase_jd_atom *\<close> is either \<open>NULL\<close> (\<open>None\<close>) or the address of an atom, which
  this layer treats as an opaque identity.
\<close>

type_synonym kbase_jd_atom = nat
type_synonym katom_ptr = "kbase_jd_atom option"

text \<open>
  Modelled from the spec: \<open>OSK_ASSERT\<close> is not defined in the header; section 7 of the
  specification calls the caller-contract checks fatal assertions, so a failed assertion
  ends the call with \<open>AssertFailed\<close>. An array access outside the array (undefined behaviour
  in C) ends the call with \<open>OutOfBounds\<close>.
\<close>

datatype error = AssertFailed | OutOfBounds

text \<open>
  Modelled from the spec: the compile-time constants the header uses but does not define.
  \<open>BASE_JM_SUBMIT_SLOTS\<close> is the capacity CAP of a slot's submit buffer,
  \<open>BASE_JM_SUBMIT_SLOTS_MASK\<close> the mask of its index arithmetic, \<open>BASE_HW_ISSUE_5713\<close> the
  erratum switch of the preprocessor conditionals, and \<open>KBASE_RESET_GPU_NOT_PENDING\<close> the
  not-pending value of the reset flag. They are C \<open>int\<close> constants.
\<close>

record kbase_config =
  BASE_JM_SUBMIT_SLOTS :: int
  BASE_JM_SUBMIT_SLOTS_MASK :: int
  BASE_HW_ISSUE_5713 :: bool
  KBASE_RESET_GPU_NOT_PENDING :: int

text \<open>
  Modelled from the spec: \<open>kbase_jm_slot\<close> is declared outside the header. The fields are
  those the header touches: the array \<open>submitted[BASE_JM_SUBMIT_SLOTS]\<close>, and the \<open>u8\<close>
  fields \<open>submitted_head\<close> and \<open>submitted_nr\<close> (the header copies them into \<open>u8\<close> locals and
  returns \<open>submitted_nr\<close> as \<open>u8\<close>). \<open>submission_blocked_for_soft_stop\<close> exists in C only
  under \<open>BASE_HW_ISSUE_5713\<close>; here it is always present and only read or written under
  that switch.
\<close>

record kbase_jm_slot =
  submitted :: "katom_ptr list"
  submitted_head :: u8
  submitted_nr :: u8
  submission_blocked_for_soft_stop :: bool

datatype jsn_reg = JSn_COMMAND | JSn_COMMAND_NEXT

text \<open>
  Modelled from the spec: \<open>kbase_device\<close> with the fields the header reads. The hardware
  job-slot registers are part of the device state, keyed by slot index and register
  selector; \<open>reset_gpu\<close> is the value held by the atomic reset flag.
\<close>

record kbase_device =
  nr_job_slots :: int
  reset_gpu :: int
  jm_slots :: "kbase_jm_slot list"
  job_slot_regs :: "int \<Rightarrow> jsn_reg \<Rightarrow> u32"

text \<open>
  Modelled from the spec: \<open>kbase_reg_read (kbdev, JOB_SLOT_REG (js, r), kctx)\<close> reads one
  hardware register of slot \<open>js\<close>; the context argument does not select the register.
\<close>

definition kbase_reg_read :: "kbase_device \<Rightarrow> int \<Rightarrow> jsn_reg \<Rightarrow> u32" where
  "kbase_reg_read kbdev js r = job_slot_regs kbdev js r"

text \<open>Conversion of a C \<open>int\<close> to \<open>u8\<close> on assignment: the low eight bits.\<close>

definition to_u8 :: "int \<Rightarrow> u8" where
  "to_u8 i = word_of_int i"

text \<open>Reading element \<open>i\<close> of a C array.\<close>

definition array_read :: "'a list \<Rightarrow> nat \<Rightarrow> error + 'a" where
  "array_read xs i = (if i < length xs then Inr (xs ! i) else Inl OutOfBounds)"

section \<open>Admission check\<close>

text \<open>
  \<open>kbasep_jm_is_js_free\<close>: the C function returns the \<open>int\<close> value of a logical
  negation (0 or 1). \<open>kbdev\<close> is passed by value, so it is not \<open>NULL\<close>.
\<close>

definition kbasep_jm_is_js_free :: "kbase_config \<Rightarrow> kbase_device \<Rightarrow> int \<Rightarrow> error + int" where
  "kbasep_jm_is_js_free cfg kbdev js =
     (if \<not> (0 \<le> js \<and> js < nr_job_slots kbdev) then Inl AssertFailed
      else if BASE_HW_ISSUE_5713 cfg then
        Inr (if kbase_reg_read kbdev js JSn_COMMAND_NEXT = 0
                \<and> kbase_reg_read kbdev js JSn_COMMAND = 0 then 1 else 0)
      else
        Inr (if kbase_reg_read kbdev js JSn_COMMAND_NEXT = 0 then 1 else 0))"

text \<open>
  \<open>kbasep_jm_is_submit_slots_free\<close>. The conjunctions are evaluated left to right and stop
  at the first false operand, as \<open>&&\<close> does; the comparison of \<open>submitted_nr\<close> with
  \<open>BASE_JM_SUBMIT_SLOTS - 2\<close> is a comparison of C \<open>int\<close>s.
\<close>

definition kbasep_jm_is_submit_slots_free :: "kbase_config \<Rightarrow> kbase_device \<Rightarrow> int \<Rightarrow> error + bool" where
  "kbasep_jm_is_submit_slots_free cfg kbdev js =
     (if \<not> (0 \<le> js \<and> js < nr_job_slots kbdev) then Inl AssertFailed
      else if reset_gpu kbdev \<noteq> KBASE_RESET_GPU_NOT_PENDING cfg then Inr False
      else if BASE_HW_ISSUE_5713 cfg then
        (case array_read (jm_slots kbdev) (nat js) of
           Inl e \<Rightarrow> Inl e
         | Inr slot \<Rightarrow>
             if submission_blocked_for_soft_stop slot then Inr False
             else (case kbasep_jm_is_js_free cfg kbdev js of
                     Inl e \<Rightarrow> Inl e
                   | Inr free \<Rightarrow>
                       if free = 0 then Inr False
                       else Inr (uint (submitted_nr slot) < BASE_JM_SUBMIT_SLOTS cfg - 2)))
      else
        (case kbasep_jm_is_js_free cfg kbdev js of
           Inl e \<Rightarrow> Inl e
         | Inr free \<Rightarrow>
             if free = 0 then Inr False
             else (case array_read (jm_slots kbdev) (nat js) of
                     Inl e \<Rightarrow> Inl e
                   | Inr slot \<Rightarrow>
                       Inr (uint (submitted_nr slot) < BASE_JM_SUBMIT_SLOTS cfg - 2))))"

section \<open>Submit-slot queue\<close>

definition kbasep_jm_init_submit_slot :: "kbase_config \<Rightarrow> kbase_jm_slot \<Rightarrow> kbase_jm_slot" where
  "kbasep_jm_init_submit_slot cfg slot =
     (let slot1 = slot\<lparr>submitted_nr := 0\<rparr>;
          slot2 = slot1\<lparr>submitted_head := 0\<rparr>
      in if BASE_HW_ISSUE_5713 cfg
         then slot2\<lparr>submission_blocked_for_soft_stop := False\<rparr>
         else slot2)"

text \<open>
  The queue operations take the slot and return it with the value, also where the C
  function only reads through the pointer. \<open>u8\<close> operands are promoted to \<open>int\<close> before
  \<open>+\<close> and \<open>&\<close>, and the result is converted back on assignment to \<open>pos\<close>.
\<close>

definition kbasep_jm_peek_idx_submit_slot ::
    "kbase_config \<Rightarrow> kbase_jm_slot \<Rightarrow> u8 \<Rightarrow> error + (katom_ptr \<times> kbase_jm_slot)" where
  "kbasep_jm_peek_idx_submit_slot cfg slot idx =
     (if \<not> (uint idx < BASE_JM_SUBMIT_SLOTS cfg) then Inl AssertFailed
      else
        let pos = to_u8 ((uint (submitted_head slot) + uint idx) AND BASE_JM_SUBMIT_SLOTS_MASK cfg)
        in (case array_read (submitted slot) (unat pos) of
              Inl e \<Rightarrow> Inl e
            | Inr katom \<Rightarrow> Inr (katom, slot)))"

definition kbasep_jm_dequeue_submit_slot ::
    "kbase_config \<Rightarrow> kbase_jm_slot \<Rightarrow> error + (katom_ptr \<times> kbase_jm_slot)" where
  "kbasep_jm_dequeue_submit_slot cfg slot =
     (let pos = to_u8 (uint (submitted_head slot) AND BASE_JM_SUBMIT_SLOTS_MASK cfg)
      in (case array_read (submitted slot) (unat pos) of
            Inl e \<Rightarrow> Inl e
          | Inr katom \<Rightarrow>
              let slot1 = slot\<lparr>submitted := (submitted slot)[unat pos := None]\<rparr>
              in if katom = None then Inl AssertFailed
                 else
                   let slot2 = slot1\<lparr>submitted_head :=
                                 to_u8 ((uint (submitted_head slot1) + 1) AND BASE_JM_SUBMIT_SLOTS_MASK cfg)\<rparr>;
                       slot3 = slot2\<lparr>submitted_nr := submitted_nr slot2 - 1\<rparr>
                   in Inr (katom, slot3)))"

definition kbasep_jm_dequeue_tail_submit_slot ::
    "kbase_config \<Rightarrow> kbase_jm_slot \<Rightarrow> error + (katom_ptr \<times> kbase_jm_slot)" where
  "kbasep_jm_dequeue_tail_submit_slot cfg slot =
     (let slot1 = slot\<lparr>submitted_nr := submitted_nr slot - 1\<rparr>;
          pos = to_u8 ((uint (submitted_head slot1) + uint (submitted_nr slot1))
                         AND BASE_JM_SUBMIT_SLOTS_MASK cfg)
      in (case array_read (submitted slot1) (unat pos) of
            Inl e \<Rightarrow> Inl e
          | Inr katom \<Rightarrow> Inr (katom, slot1)))"

definition kbasep_jm_nr_jobs_submitted :: "kbase_jm_slot \<Rightarrow> u8" where
  "kbasep_jm_nr_jobs_submitted slot = submitted_nr slot"

definition kbasep_jm_enqueue_submit_slot ::
    "kbase_config \<Rightarrow> kbase_jm_slot \<Rightarrow> katom_ptr \<Rightarrow> error + kbase_jm_slot" where
  "kbasep_jm_enqueue_submit_slot cfg slot katom =
     (let nr = submitted_nr slot;
          slot1 = slot\<lparr>submitted_nr := submitted_nr slot + 1\<rparr>
      in if \<not> (uint nr < BASE_JM_SUBMIT_SLOTS cfg) then Inl AssertFailed
         else
           let pos = to_u8 ((uint (submitted_head slot1) + uint nr) AND BASE_JM_SUBMIT_SLOTS_MASK cfg)
           in if unat pos < length (submitted slot1)
              then Inr (slot1\<lparr>submitted := (submitted slot1)[unat pos := katom]\<rparr>)
              else Inl OutOfBounds)"

section \<open>Well-formed configurations and slots\<close>

text \<open>
  The capacity is a power of two that a \<open>u8\<close> count can reach, and the mask is the
  capacity minus one, so that masking is reduction modulo the capacity.
\<close>

definition submit_slots_ok :: "kbase_config \<Rightarrow> nat \<Rightarrow> bool" where
  "submit_slots_ok cfg k \<longleftrightarrow>
     k \<le> 7 \<and> BASE_JM_SUBMIT_SLOTS cfg = 2 ^ k
     \<and> BASE_JM_SUBMIT_SLOTS_MASK cfg = BASE_JM_SUBMIT_SLOTS cfg - 1"

text \<open>The array of a slot has \<open>BASE_JM_SUBMIT_SLOTS\<close> elements.\<close>

definition slot_array_ok :: "kbase_config \<Rightarrow> kbase_jm_slot \<Rightarrow> bool" where
  "slot_array_ok cfg slot \<longleftrightarrow> int (length (submitted slot)) = BASE_JM_SUBMIT_SLOTS cfg"

text \<open>The device has a slot structure for each of its \<open>nr_job_slots\<close> job slots.\<close>

definition device_slots_ok :: "kbase_device \<Rightarrow> bool" where
  "device_slots_ok kbdev \<longleftrightarrow> nr_job_slots kbdev \<le> int (length (jm_slots kbdev))"

text \<open>Concrete values used to evaluate the definitions: CAP = 4.\<close>

definition cfg4 :: kbase_config where
  "cfg4 = \<lparr>BASE_JM_SUBMIT_SLOTS = 4, BASE_JM_SUBMIT_SLOTS_MASK = 3,
           BASE_HW_ISSUE_5713 = False, KBASE_RESET_GPU_NOT_PENDING = 0\<rparr>"

definition cfg4_5713 :: kbase_config where
  "cfg4_5713 = cfg4\<lparr>BASE_HW_ISSUE_5713 := True\<rparr>"

definition empty_slot4 :: kbase_jm_slot where
  "empty_slot4 = \<lparr>submitted = [None, None, None, None], submitted_head = 0,
                  submitted_nr = 0, submission_blocked_for_soft_stop = False\<rparr>"

definition dev4 :: kbase_device where
  "dev4 = \<lparr>nr_job_slots = 1, reset_gpu = 0, jm_slots = [empty_slot4],
           job_slot_regs = (\<lambda>js r. 0)\<rparr>"

text \<open>
  Two slots that the queue operations reach from \<open>empty_slot4\<close>: \<open>undone_slot4\<close> after
  enqueuing atom 7 and dequeuing it from the back, \<open>stale_slot4\<close> after enqueuing atoms 7
  and 8 and dequeuing 8 from the back. The dequeued atoms stay in the array.
\<close>

definition undone_slot4 :: kbase_jm_slot where
  "undone_slot4 = \<lparr>submitted = [Some 7, None, None, None], submitted_head = 0,
                   submitted_nr = 0, submission_blocked_for_soft_stop = False\<rparr>"

definition stale_slot4 :: kbase_jm_slot where
  "stale_slot4 = \<lparr>submitted = [Some 7, Some 8, None, None], submitted_head = 0,
                  submitted_nr = 1, submission_blocked_for_soft_stop = False\<rparr>"

text \<open>
  A slot whose only atom sits in the last cell of the array, as after four enqueues and
  three dequeues from the front.
\<close>

definition last_cell_slot4 :: kbase_jm_slot where
  "last_cell_slot4 = \<lparr>submitted = [None, None, None, Some 5], submitted_head = 3,
                      submitted_nr = 1, submission_blocked_for_soft_stop = False\<rparr>"

text \<open>A device whose slot 0 has a job in the current register and none in the next.\<close>

definition dev4_running :: kbase_device where
  "dev4_running = dev4\<lparr>job_slot_regs := (\<lambda>js r. if r = JSn_COMMAND then 1 else 0)\<rparr>"

section \<open>Sequences of queue operations\<close>

text \<open>
  A sequence of enqueue and dequeue-front calls on one slot. An enqueue passes the address
  of an atom, so the pointer is not \<open>NULL\<close>. The run stops at the first failed call.
\<close>

datatype slot_op = Enqueue kbase_jd_atom | Dequeue

fun run_ops :: "kbase_config \<Rightarrow> kbase_jm_slot \<Rightarrow> slot_op list \<Rightarrow> error + kbase_jm_slot" where
  "run_ops cfg slot [] = Inr slot"
| "run_ops cfg slot (Enqueue a # ops) =
     (case kbasep_jm_enqueue_submit_slot cfg slot (Some a) of
        Inl e \<Rightarrow> Inl e
      | Inr slot1 \<Rightarrow> run_ops cfg slot1 ops)"
| "run_ops cfg slot (Dequeue # ops) =
     (case kbasep_jm_dequeue_submit_slot cfg slot of
        Inl e \<Rightarrow> Inl e
      | Inr (katom, slot1) \<Rightarrow> run_ops cfg slot1 ops)"

fun enqueues :: "slot_op list \<Rightarrow> int" where
  "enqueues [] = 0"
| "enqueues (Enqueue a # ops) = 1 + enqueues ops"
| "enqueues (Dequeue # ops) = enqueues ops"

fun dequeues :: "slot_op list \<Rightarrow> int" where
  "dequeues [] = 0"
| "dequeues (Enqueue a # ops) = dequeues ops"
| "dequeues (Dequeue # ops) = 1 + dequeues ops"

text \<open>
  A sequence respects the capacity from a queue holding \<open>n\<close> atoms when it never enqueues
  at \<open>n = CAP\<close> and never dequeues at \<open>n = 0\<close>, where \<open>n\<close> follows the calls made so far.
\<close>

fun respects_capacity :: "kbase_config \<Rightarrow> int \<Rightarrow> slot_op list \<Rightarrow> bool" where
  "respects_capacity cfg n [] = True"
| "respects_capacity cfg n (Enqueue a # ops) =
     (n \<noteq> BASE_JM_SUBMIT_SLOTS cfg \<and> respects_capacity cfg (n + 1) ops)"
| "respects_capacity cfg n (Dequeue # ops) =
     (n \<noteq> 0 \<and> respects_capacity cfg (n - 1) ops)"

text \<open>
  The invariant of a slot that holds \<open>n\<close> atoms: the array has CAP elements, the count is
  \<open>n\<close> and at most CAP, the head is an index of the array, and the \<open>n\<close> cells from the
  head on (modulo CAP) hold atoms.
\<close>

definition ring_inv :: "kbase_config \<Rightarrow> kbase_jm_slot \<Rightarrow> int \<Rightarrow> bool" where
  "ring_inv cfg slot n \<longleftrightarrow>
     slot_array_ok cfg slot
     \<and> uint (submitted_nr slot) = n \<and> n \<le> BASE_JM_SUBMIT_SLOTS cfg
     \<and> uint (submitted_head slot) < BASE_JM_SUBMIT_SLOTS cfg
     \<and> (\<forall>i \<in> {0 ..< nat n}. submitted slot ! ((unat (submitted_head slot) + i)
                                          mod nat (BASE_JM_SUBMIT_SLOTS cfg)) \<noteq> None)"

section \<open>Facts about the concrete values\<close>

lemma cfg4_ok: "submit_slots_ok cfg4 2"
  by (simp add: submit_slots_ok_def cfg4_def)

lemma cfg4_5713_ok: "submit_slots_ok cfg4_5713 2"
  by (simp add: submit_slots_ok_def cfg4_5713_def cfg4_def)

lemma empty_slot4_ok: "slot_array_ok cfg4 empty_slot4"
  by (simp add: slot_array_ok_def cfg4_def empty_slot4_def)

lemma stale_slot4_ok: "slot_array_ok cfg4 stale_slot4"
  by (simp add: slot_array_ok_def cfg4_def stale_slot4_def)

lemma undone_slot4_ok: "slot_array_ok cfg4 undone_slot4"
  by (simp add: slot_array_ok_def cfg4_def undone_slot4_def)

lemma last_cell_slot4_ok: "slot_array_ok cfg4 last_cell_slot4"
  by (simp add: slot_array_ok_def cfg4_def last_cell_slot4_def)

text \<open>How \<open>undone_slot4\<close> and \<open>stale_slot4\<close> arise from the empty slot.\<close>

lemma enqueue_empty_slot4:
  "kbasep_jm_enqueue_submit_slot cfg4 empty_slot4 (Some 7) = Inr (undone_slot4\<lparr>submitted_nr := 1\<rparr>)"
  by (simp add: kbasep_jm_enqueue_submit_slot_def cfg4_def empty_slot4_def undone_slot4_def to_u8_def)

lemma dequeue_tail_first_slot4:
  "kbasep_jm_dequeue_tail_submit_slot cfg4 (undone_slot4\<lparr>submitted_nr := 1\<rparr>) = Inr (Some 7, undone_slot4)"
  by (simp add: kbasep_jm_dequeue_tail_submit_slot_def cfg4_def undone_slot4_def to_u8_def array_read_def)

lemma enqueue_second_slot4:
  "kbasep_jm_enqueue_submit_slot cfg4 (undone_slot4\<lparr>submitted_nr := 1\<rparr>) (Some 8)
     = Inr (stale_slot4\<lparr>submitted_nr := 2\<rparr>)"
  by (simp add: kbasep_jm_enqueue_submit_slot_def cfg4_def stale_slot4_def undone_slot4_def to_u8_def)

lemma dequeue_tail_second_slot4:
  "kbasep_jm_dequeue_tail_submit_slot cfg4 (stale_slot4\<lparr>submitted_nr := 2\<rparr>) = Inr (Some 8, stale_slot4)"
  by (simp add: kbasep_jm_dequeue_tail_submit_slot_def cfg4_def stale_slot4_def to_u8_def array_read_def)

section \<open>Index arithmetic\<close>

text \<open>Masking with \<open>2 ^ k - 1\<close> and converting to \<open>u8\<close> is reduction modulo \<open>2 ^ k\<close>.\<close>

lemma masked_index:
  assumes "k \<le> 7" and "0 \<le> x"
  shows "unat (to_u8 (x AND (2 ^ k - 1))) = nat x mod 2 ^ k"
proof -
  have m: "x AND (2 ^ k - 1) = x mod 2 ^ k"
    by (simp add: take_bit_eq_mod flip: take_bit_eq_mask mask_eq_exp_minus_1)
  have lo: "0 \<le> x mod (2::int) ^ k" by simp
  have "x mod (2::int) ^ k < 2 ^ k" by simp
  also have "(2::int) ^ k \<le> 2 ^ 7" using assms(1) by (intro power_increasing) simp_all
  finally have hi: "x mod 2 ^ k < 256" by simp
  have "unat (to_u8 (x mod 2 ^ k)) = nat (x mod 2 ^ k)"
    using lo hi by (simp add: to_u8_def unat_eq_nat_uint uint_word_of_int take_bit_eq_mod)
  also have "\<dots> = nat x mod 2 ^ k"
    using assms(2) by (simp add: nat_mod_distrib nat_power_eq)
  finally show ?thesis using m by simp
qed

lemma slot_pos:
  assumes "submit_slots_ok cfg k" and "0 \<le> x"
  shows "unat (to_u8 (x AND BASE_JM_SUBMIT_SLOTS_MASK cfg)) = nat x mod nat (BASE_JM_SUBMIT_SLOTS cfg)"
  using assms masked_index [of k x] by (simp add: submit_slots_ok_def nat_power_eq)

lemma slot_pos_in_array:
  assumes "submit_slots_ok cfg k" and "slot_array_ok cfg slot"
  shows "n mod nat (BASE_JM_SUBMIT_SLOTS cfg) < length (submitted slot)"
proof -
  from assms(2) have len: "length (submitted slot) = nat (BASE_JM_SUBMIT_SLOTS cfg)"
    unfolding slot_array_ok_def by linarith
  from assms(1) have "BASE_JM_SUBMIT_SLOTS cfg = 2 ^ k"
    unfolding submit_slots_ok_def by blast
  then have "0 < nat (BASE_JM_SUBMIT_SLOTS cfg)" by simp
  with len show ?thesis by simp
qed

lemma uint_sum_nat: "nat (uint (a::u8) + uint (b::u8)) = unat a + unat b"
  by (simp add: nat_add_distrib)

lemma cap_pow2:
  assumes "submit_slots_ok cfg k"
  shows "nat (BASE_JM_SUBMIT_SLOTS cfg) = 2 ^ k" and "0 < BASE_JM_SUBMIT_SLOTS cfg"
    and "BASE_JM_SUBMIT_SLOTS cfg \<le> 128"
proof -
  from assms have c: "BASE_JM_SUBMIT_SLOTS cfg = 2 ^ k" and k: "k \<le> 7"
    unfolding submit_slots_ok_def by blast+
  show "nat (BASE_JM_SUBMIT_SLOTS cfg) = 2 ^ k" using c by (simp add: nat_power_eq)
  show "0 < BASE_JM_SUBMIT_SLOTS cfg" using c by simp
  have "(2::int) ^ k \<le> 2 ^ 7" using k by (intro power_increasing) simp_all
  then show "BASE_JM_SUBMIT_SLOTS cfg \<le> 128" using c by simp
qed

lemma mod_shift_neq:
  assumes "h < (c::nat)" and "0 < j" and "j < c"
  shows "(h + j) mod c \<noteq> h"
proof
  assume e: "(h + j) mod c = h"
  show False
  proof (cases "h + j < c")
    case True
    with e assms show False by simp
  next
    case False
    then have "(h + j) mod c = h + j - c"
      using assms by (simp add: mod_if)
    with e assms False show False by simp
  qed
qed

section \<open>The queue operations on a well-formed slot\<close>

lemma peek_eq:
  assumes "submit_slots_ok cfg k" and "slot_array_ok cfg slot"
    and "uint idx < BASE_JM_SUBMIT_SLOTS cfg"
  shows "kbasep_jm_peek_idx_submit_slot cfg slot idx =
           Inr (submitted slot ! ((unat (submitted_head slot) + unat idx) mod nat (BASE_JM_SUBMIT_SLOTS cfg)), slot)"
  using assms slot_pos_in_array [OF assms(1,2)]
  by (simp add: kbasep_jm_peek_idx_submit_slot_def slot_pos [OF assms(1)] uint_sum_nat array_read_def)

lemma dequeue_tail_eq:
  assumes "submit_slots_ok cfg k" and "slot_array_ok cfg slot"
  shows "kbasep_jm_dequeue_tail_submit_slot cfg slot =
           Inr (submitted slot ! ((unat (submitted_head slot) + unat (submitted_nr slot - 1))
                                    mod nat (BASE_JM_SUBMIT_SLOTS cfg)),
                slot\<lparr>submitted_nr := submitted_nr slot - 1\<rparr>)"
  using slot_pos_in_array [OF assms(1,2)]
  by (simp add: kbasep_jm_dequeue_tail_submit_slot_def slot_pos [OF assms(1)] uint_sum_nat array_read_def)

lemma enqueue_eq:
  assumes "submit_slots_ok cfg k" and "slot_array_ok cfg slot"
    and "uint (submitted_nr slot) < BASE_JM_SUBMIT_SLOTS cfg"
  shows "kbasep_jm_enqueue_submit_slot cfg slot katom =
           Inr (slot\<lparr>submitted_nr := submitted_nr slot + 1,
                     submitted := (submitted slot)
                        [(unat (submitted_head slot) + unat (submitted_nr slot))
                           mod nat (BASE_JM_SUBMIT_SLOTS cfg) := katom]\<rparr>)"
  using assms(3) slot_pos_in_array [OF assms(1,2)]
  by (simp add: kbasep_jm_enqueue_submit_slot_def slot_pos [OF assms(1)] uint_sum_nat Let_def)

lemma dequeue_eq:
  assumes "submit_slots_ok cfg k" and "slot_array_ok cfg slot"
  shows "kbasep_jm_dequeue_submit_slot cfg slot =
           (let pos = unat (submitted_head slot) mod nat (BASE_JM_SUBMIT_SLOTS cfg)
            in if submitted slot ! pos = None then Inl AssertFailed
               else Inr (submitted slot ! pos,
                         slot\<lparr>submitted := (submitted slot)[pos := None],
                              submitted_head := of_nat ((unat (submitted_head slot) + 1)
                                                          mod nat (BASE_JM_SUBMIT_SLOTS cfg)),
                              submitted_nr := submitted_nr slot - 1\<rparr>))"
proof -
  have h: "to_u8 ((uint (submitted_head slot) + 1) AND BASE_JM_SUBMIT_SLOTS_MASK cfg)
        = of_nat ((unat (submitted_head slot) + 1) mod nat (BASE_JM_SUBMIT_SLOTS cfg))"
  proof -
    have "unat (to_u8 ((uint (submitted_head slot) + 1) AND BASE_JM_SUBMIT_SLOTS_MASK cfg))
        = (unat (submitted_head slot) + 1) mod nat (BASE_JM_SUBMIT_SLOTS cfg)"
      by (simp add: slot_pos [OF assms(1)] nat_add_distrib)
    then have "of_nat (unat (to_u8 ((uint (submitted_head slot) + 1) AND BASE_JM_SUBMIT_SLOTS_MASK cfg)))
        = (of_nat ((unat (submitted_head slot) + 1) mod nat (BASE_JM_SUBMIT_SLOTS cfg)) :: u8)"
      by (rule arg_cong)
    then show ?thesis by simp
  qed
  show ?thesis
    using slot_pos_in_array [OF assms(1,2)]
    by (simp add: kbasep_jm_dequeue_submit_slot_def slot_pos [OF assms(1)] h
        array_read_def Let_def)
qed

section \<open>The ring invariant\<close>

lemma ring_inv_init:
  assumes "submit_slots_ok cfg k" and "slot_array_ok cfg slot"
  shows "ring_inv cfg (kbasep_jm_init_submit_slot cfg slot) 0"
  using assms(2) cap_pow2(2) [OF assms(1)]
  by (simp add: ring_inv_def kbasep_jm_init_submit_slot_def slot_array_ok_def Let_def)

lemma ring_inv_enqueue:
  assumes ok: "submit_slots_ok cfg k" and inv: "ring_inv cfg slot n"
    and n: "n \<noteq> BASE_JM_SUBMIT_SLOTS cfg"
  shows "\<exists>slot1. kbasep_jm_enqueue_submit_slot cfg slot (Some a) = Inr slot1
                 \<and> ring_inv cfg slot1 (n + 1)"
proof -
  from inv have arr: "slot_array_ok cfg slot" and cnt: "uint (submitted_nr slot) = n"
    and le: "n \<le> BASE_JM_SUBMIT_SLOTS cfg"
    and hd: "uint (submitted_head slot) < BASE_JM_SUBMIT_SLOTS cfg"
    and cells: "\<forall>i \<in> {0 ..< nat n}. submitted slot ! ((unat (submitted_head slot) + i)
                                          mod nat (BASE_JM_SUBMIT_SLOTS cfg)) \<noteq> None"
    unfolding ring_inv_def by blast+
  from n le cnt have lt: "uint (submitted_nr slot) < BASE_JM_SUBMIT_SLOTS cfg" by simp
  define pos where "pos = (unat (submitted_head slot) + unat (submitted_nr slot))
                            mod nat (BASE_JM_SUBMIT_SLOTS cfg)"
  define slot1 where "slot1 = slot\<lparr>submitted_nr := submitted_nr slot + 1,
                                    submitted := (submitted slot)[pos := Some a]\<rparr>"
  have enq: "kbasep_jm_enqueue_submit_slot cfg slot (Some a) = Inr slot1"
    unfolding slot1_def pos_def by (rule enqueue_eq [OF ok arr lt])
  have inb: "pos < length (submitted slot)"
    unfolding pos_def by (rule slot_pos_in_array [OF ok arr])
  have arr1: "slot_array_ok cfg slot1"
    using arr by (simp add: slot_array_ok_def slot1_def)
  have n0: "0 \<le> n" using uint_ge_0 [of "submitted_nr slot"] cnt by simp
  have "n + 1 < 256"
    using lt cnt cap_pow2(3) [OF ok] by simp
  then have cnt1: "uint (submitted_nr slot1) = n + 1"
    using cnt n0 by (simp add: slot1_def uint_word_ariths take_bit_eq_mod)
  have un: "unat (submitted_nr slot) = nat n"
    unfolding cnt [symmetric] by (rule unat_eq_nat_uint)
  have cells1: "submitted slot1 ! ((unat (submitted_head slot1) + i)
                    mod nat (BASE_JM_SUBMIT_SLOTS cfg)) \<noteq> None"
    if "i \<in> {0 ..< nat (n + 1)}" for i
  proof (cases "(unat (submitted_head slot) + i) mod nat (BASE_JM_SUBMIT_SLOTS cfg) = pos")
    case True
    then show ?thesis using inb by (simp add: slot1_def)
  next
    case False
    have "i \<noteq> nat n" using False un by (auto simp: pos_def)
    with that have "i \<in> {0 ..< nat n}" by auto
    with cells False show ?thesis by (simp add: slot1_def)
  qed
  have "ring_inv cfg slot1 (n + 1)"
    unfolding ring_inv_def
    using arr1 cnt1 lt cnt hd cells1 by (simp add: slot1_def)
  with enq show ?thesis by blast
qed

lemma ring_inv_dequeue:
  assumes ok: "submit_slots_ok cfg k" and inv: "ring_inv cfg slot n"
    and n: "n \<noteq> 0"
  shows "\<exists>katom slot1. kbasep_jm_dequeue_submit_slot cfg slot = Inr (katom, slot1)
                 \<and> ring_inv cfg slot1 (n - 1)"
proof -
  from inv have arr: "slot_array_ok cfg slot" and cnt: "uint (submitted_nr slot) = n"
    and le: "n \<le> BASE_JM_SUBMIT_SLOTS cfg"
    and hd: "uint (submitted_head slot) < BASE_JM_SUBMIT_SLOTS cfg"
    and cells: "\<forall>i \<in> {0 ..< nat n}. submitted slot ! ((unat (submitted_head slot) + i)
                                          mod nat (BASE_JM_SUBMIT_SLOTS cfg)) \<noteq> None"
    unfolding ring_inv_def by blast+
  define c where "c = nat (BASE_JM_SUBMIT_SLOTS cfg)"
  define h where "h = unat (submitted_head slot)"
  have cpos: "0 < c" using cap_pow2(2) [OF ok] by (simp add: c_def)
  have "int h < int c" using hd cap_pow2(2) [OF ok] by (simp add: h_def c_def)
  then have hc: "h < c" by simp
  have npos: "0 < n" using n cnt uint_ge_0 [of "submitted_nr slot"] by linarith
  have nc: "nat n \<le> c" using le by (simp add: c_def)
  have len: "length (submitted slot) = c"
    using arr unfolding slot_array_ok_def c_def by linarith
  define slot1 where "slot1 = slot\<lparr>submitted := (submitted slot)[h := None],
                              submitted_head := of_nat ((h + 1) mod c),
                              submitted_nr := submitted_nr slot - 1\<rparr>"
  from cells npos have "submitted slot ! ((h + 0) mod c) \<noteq> None"
    unfolding h_def c_def by (intro bspec [OF cells]) simp
  then have first: "submitted slot ! h \<noteq> None" using hc by simp
  have deq: "kbasep_jm_dequeue_submit_slot cfg slot = Inr (submitted slot ! h, slot1)"
    using first hc
    by (simp add: dequeue_eq [OF ok arr] slot1_def h_def [symmetric] c_def [symmetric] Let_def)
  have arr1: "slot_array_ok cfg slot1"
    using arr by (simp add: slot_array_ok_def slot1_def)
  have "(h + 1) mod c < c" using cpos by simp
  also have "c \<le> 128" using cap_pow2(3) [OF ok] by (simp add: c_def)
  finally have small: "(h + 1) mod c < 2 ^ 8" by simp
  have h1: "unat (submitted_head slot1) = (h + 1) mod c"
    using small by (simp add: slot1_def unat_of_nat)
  have hd1: "uint (submitted_head slot1) < BASE_JM_SUBMIT_SLOTS cfg"
  proof -
    have "(h + 1) mod c < c" using cpos by simp
    then have "int (unat (submitted_head slot1)) < int c" using h1 by simp
    then show ?thesis using cap_pow2(2) [OF ok] by (simp add: c_def)
  qed
  have "submitted_nr slot \<noteq> 0" using cnt npos by auto
  then have "unat (submitted_nr slot - 1) = unat (submitted_nr slot) - 1"
    by (simp add: unat_minus_one)
  moreover have un: "unat (submitted_nr slot) = nat n"
    unfolding cnt [symmetric] by (rule unat_eq_nat_uint)
  ultimately have "unat (submitted_nr slot - 1) = nat n - 1" by simp
  then have "uint (submitted_nr slot - 1) = int (nat n - 1)"
    unfolding uint_nat by simp
  then have cnt1: "uint (submitted_nr slot1) = n - 1"
    using npos by (simp add: slot1_def)
  have cells1: "submitted slot1 ! ((unat (submitted_head slot1) + i) mod c) \<noteq> None"
    if "i \<in> {0 ..< nat (n - 1)}" for i
  proof -
    from that npos have i: "i + 1 < nat n" by auto
    have "((h + 1) mod c + i) mod c = ((h + 1) + i) mod c"
      by (rule mod_add_left_eq)
    then have e: "((h + 1) mod c + i) mod c = (h + (i + 1)) mod c"
      by (simp add: ac_simps)
    have "(h + (i + 1)) mod c \<noteq> h"
      using hc i nc by (intro mod_shift_neq) simp_all
    moreover have "submitted slot ! ((h + (i + 1)) mod c) \<noteq> None"
    proof -
      from i have "i + 1 \<in> {0 ..< nat n}" by simp
      from bspec [OF cells this] show ?thesis unfolding h_def c_def .
    qed
    moreover have "submitted slot1 = (submitted slot)[h := None]"
      by (simp add: slot1_def)
    ultimately show ?thesis
      unfolding h1 e by simp
  qed
  have "ring_inv cfg slot1 (n - 1)"
    unfolding ring_inv_def c_def [symmetric]
    using arr1 cnt1 le hd1 cells1 by (simp add: c_def)
  with deq show ?thesis by blast
qed

lemma respects_capacity_take:
  "respects_capacity cfg n ops \<Longrightarrow> respects_capacity cfg n (take m ops)"
proof (induction ops arbitrary: n m)
  case Nil
  then show ?case by simp
next
  case (Cons op ops)
  show ?case
  proof (cases m)
    case 0
    then show ?thesis by simp
  next
    case (Suc m')
    with Cons show ?thesis by (cases op) simp_all
  qed
qed

lemma run_ops_count:
  assumes "submit_slots_ok cfg k"
  shows "ring_inv cfg slot n \<Longrightarrow> respects_capacity cfg n ops \<Longrightarrow>
         \<exists>slot1. run_ops cfg slot ops = Inr slot1
                \<and> ring_inv cfg slot1 (n + enqueues ops - dequeues ops)"
proof (induction ops arbitrary: slot n)
  case Nil
  then show ?case by simp
next
  case (Cons op ops)
  show ?case
  proof (cases op)
    case (Enqueue a)
    with Cons.prems have n: "n \<noteq> BASE_JM_SUBMIT_SLOTS cfg"
      and rest: "respects_capacity cfg (n + 1) ops" by simp_all
    from ring_inv_enqueue [OF assms Cons.prems(1) n, of a]
    obtain slot1 where enq: "kbasep_jm_enqueue_submit_slot cfg slot (Some a) = Inr slot1"
      and inv1: "ring_inv cfg slot1 (n + 1)" by blast
    from Cons.IH [OF inv1 rest]
    obtain slot2 where "run_ops cfg slot1 ops = Inr slot2"
      and "ring_inv cfg slot2 (n + 1 + enqueues ops - dequeues ops)" by blast
    with enq Enqueue show ?thesis by (simp add: algebra_simps)
  next
    case Dequeue
    with Cons.prems have n: "n \<noteq> 0"
      and rest: "respects_capacity cfg (n - 1) ops" by simp_all
    from ring_inv_dequeue [OF assms Cons.prems(1) n]
    obtain katom slot1 where deq: "kbasep_jm_dequeue_submit_slot cfg slot = Inr (katom, slot1)"
      and inv1: "ring_inv cfg slot1 (n - 1)" by blast
    from Cons.IH [OF inv1 rest]
    obtain slot2 where "run_ops cfg slot1 ops = Inr slot2"
      and "ring_inv cfg slot2 (n - 1 + enqueues ops - dequeues ops)" by blast
    with deq Dequeue show ?thesis by (simp add: algebra_simps)
  qed
qed

section \<open>Admission check: theorems\<close>

text \<open>
  C1. Whenever the device-wide reset flag differs from the not-pending value, the
  admission check of an existing job slot returns false, whatever the slot's queue, the
  hardware registers and the soft-stop flag hold.
\<close>

theorem is_submit_slots_free_reset:
  assumes "reset_gpu kbdev \<noteq> KBASE_RESET_GPU_NOT_PENDING cfg"
    and "0 \<le> js" and "js < nr_job_slots kbdev"
  shows "kbasep_jm_is_submit_slots_free cfg kbdev js = Inr False"
  using assms by (simp add: kbasep_jm_is_submit_slots_free_def)

theorem is_submit_slots_free_reset_witness:
  "reset_gpu (dev4\<lparr>reset_gpu := 1\<rparr>) \<noteq> KBASE_RESET_GPU_NOT_PENDING cfg4
   \<and> (0::int) \<le> 0 \<and> 0 < nr_job_slots (dev4\<lparr>reset_gpu := 1\<rparr>)
   \<and> kbasep_jm_is_submit_slots_free cfg4 (dev4\<lparr>reset_gpu := 1\<rparr>) 0 = Inr False"
proof -
  have a: "reset_gpu (dev4\<lparr>reset_gpu := 1\<rparr>) \<noteq> KBASE_RESET_GPU_NOT_PENDING cfg4"
    by (simp add: dev4_def cfg4_def)
  have b: "(0::int) \<le> 0" by simp
  have c: "0 < nr_job_slots (dev4\<lparr>reset_gpu := 1\<rparr>)" by (simp add: dev4_def)
  from is_submit_slots_free_reset [OF a b c] a b c show ?thesis by simp
qed

text \<open>
  C2. With the reset flag not pending and no soft-stop block, the admission check of an
  existing slot returns true only if \<open>submitted_nr < BASE_JM_SUBMIT_SLOTS - 2\<close>, and it
  returns false whenever \<open>submitted_nr = BASE_JM_SUBMIT_SLOTS - 2\<close>, whatever the hardware
  registers hold.
\<close>

theorem is_submit_slots_free_margin:
  assumes "reset_gpu kbdev = KBASE_RESET_GPU_NOT_PENDING cfg"
    and "BASE_HW_ISSUE_5713 cfg \<longrightarrow> \<not> submission_blocked_for_soft_stop (jm_slots kbdev ! nat js)"
    and "0 \<le> js" and "js < nr_job_slots kbdev" and "device_slots_ok kbdev"
  shows "(kbasep_jm_is_submit_slots_free cfg kbdev js = Inr True
            \<longrightarrow> uint (submitted_nr (jm_slots kbdev ! nat js)) < BASE_JM_SUBMIT_SLOTS cfg - 2)
       \<and> (uint (submitted_nr (jm_slots kbdev ! nat js)) = BASE_JM_SUBMIT_SLOTS cfg - 2
            \<longrightarrow> kbasep_jm_is_submit_slots_free cfg kbdev js = Inr False)"
proof -
  from assms have "nat js < length (jm_slots kbdev)"
    by (simp add: device_slots_ok_def)
  then have rd: "array_read (jm_slots kbdev) (nat js) = Inr (jm_slots kbdev ! nat js)"
    by (simp add: array_read_def)
  from assms rd show ?thesis
    by (simp add: kbasep_jm_is_submit_slots_free_def kbasep_jm_is_js_free_def)
qed

theorem is_submit_slots_free_margin_witness:
  "kbasep_jm_is_submit_slots_free cfg4 dev4 0 = Inr True
   \<and> uint (submitted_nr (jm_slots dev4 ! nat 0)) < BASE_JM_SUBMIT_SLOTS cfg4 - 2
   \<and> uint (submitted_nr (jm_slots (dev4\<lparr>jm_slots := [empty_slot4\<lparr>submitted_nr := 2\<rparr>]\<rparr>) ! nat 0))
       = BASE_JM_SUBMIT_SLOTS cfg4 - 2
   \<and> kbasep_jm_is_submit_slots_free cfg4 (dev4\<lparr>jm_slots := [empty_slot4\<lparr>submitted_nr := 2\<rparr>]\<rparr>) 0
       = Inr False"
proof -
  define dev2 where "dev2 = dev4\<lparr>jm_slots := [empty_slot4\<lparr>submitted_nr := 2\<rparr>]\<rparr>"
  have a: "reset_gpu dev4 = KBASE_RESET_GPU_NOT_PENDING cfg4"
    and a2: "reset_gpu dev2 = KBASE_RESET_GPU_NOT_PENDING cfg4"
    by (simp_all add: dev2_def dev4_def cfg4_def)
  have b: "BASE_HW_ISSUE_5713 cfg4 \<longrightarrow> \<not> submission_blocked_for_soft_stop (jm_slots dev4 ! nat 0)"
    and b2: "BASE_HW_ISSUE_5713 cfg4 \<longrightarrow> \<not> submission_blocked_for_soft_stop (jm_slots dev2 ! nat 0)"
    by (simp_all add: cfg4_def)
  have c: "(0::int) \<le> 0" by simp
  have d: "0 < nr_job_slots dev4" and d2: "0 < nr_job_slots dev2"
    by (simp_all add: dev2_def dev4_def)
  have e: "device_slots_ok dev4" and e2: "device_slots_ok dev2"
    by (simp_all add: device_slots_ok_def dev2_def dev4_def)
  have t: "kbasep_jm_is_submit_slots_free cfg4 dev4 0 = Inr True"
    by (simp add: kbasep_jm_is_submit_slots_free_def kbasep_jm_is_js_free_def kbase_reg_read_def
        array_read_def dev4_def cfg4_def empty_slot4_def)
  have f: "uint (submitted_nr (jm_slots dev2 ! nat 0)) = BASE_JM_SUBMIT_SLOTS cfg4 - 2"
    by (simp add: dev2_def cfg4_def)
  from is_submit_slots_free_margin [OF a b c d e] is_submit_slots_free_margin [OF a2 b2 c d2 e2] t f
  show ?thesis unfolding dev2_def by blast
qed

text \<open>
  C3. For an existing slot, \<open>kbasep_jm_is_js_free\<close> returns 1 or 0. Without
  \<open>BASE_HW_ISSUE_5713\<close> it returns 1 exactly when the slot's \<open>JSn_COMMAND_NEXT\<close> register
  reads zero; with the erratum it returns 1 exactly when both \<open>JSn_COMMAND_NEXT\<close> and
  \<open>JSn_COMMAND\<close> read zero. The erratum adds a conjunct to the same test.
\<close>

theorem is_js_free_registers:
  assumes "0 \<le> js" and "js < nr_job_slots kbdev"
  shows "kbasep_jm_is_js_free cfg kbdev js =
           Inr (if kbase_reg_read kbdev js JSn_COMMAND_NEXT = 0
                   \<and> (BASE_HW_ISSUE_5713 cfg \<longrightarrow> kbase_reg_read kbdev js JSn_COMMAND = 0)
                then 1 else 0)"
  using assms by (simp add: kbasep_jm_is_js_free_def)

theorem is_js_free_registers_witness:
  "(0::int) \<le> 0 \<and> 0 < nr_job_slots dev4_running
   \<and> kbasep_jm_is_js_free cfg4 dev4_running 0 = Inr 1
   \<and> kbasep_jm_is_js_free cfg4_5713 dev4_running 0 = Inr 0"
proof -
  have a: "(0::int) \<le> 0" by simp
  have b: "0 < nr_job_slots dev4_running" by (simp add: dev4_running_def dev4_def)
  from is_js_free_registers [OF a b, of cfg4] is_js_free_registers [OF a b, of cfg4_5713] a b
  show ?thesis
    by (simp add: kbase_reg_read_def dev4_running_def dev4_def cfg4_5713_def cfg4_def)
qed

text \<open>
  C9. With \<open>BASE_HW_ISSUE_5713\<close>, the admission check of an existing slot whose
  \<open>submission_blocked_for_soft_stop\<close> flag is set returns false, whatever the count, the
  hardware registers and the reset flag hold.
\<close>

theorem is_submit_slots_free_soft_stop:
  assumes "BASE_HW_ISSUE_5713 cfg"
    and "submission_blocked_for_soft_stop (jm_slots kbdev ! nat js)"
    and "0 \<le> js" and "js < nr_job_slots kbdev" and "device_slots_ok kbdev"
  shows "kbasep_jm_is_submit_slots_free cfg kbdev js = Inr False"
proof -
  from assms have "nat js < length (jm_slots kbdev)"
    by (simp add: device_slots_ok_def)
  then have rd: "array_read (jm_slots kbdev) (nat js) = Inr (jm_slots kbdev ! nat js)"
    by (simp add: array_read_def)
  from assms rd show ?thesis
    by (simp add: kbasep_jm_is_submit_slots_free_def)
qed

theorem is_submit_slots_free_soft_stop_witness:
  "BASE_HW_ISSUE_5713 cfg4_5713
   \<and> submission_blocked_for_soft_stop
        (jm_slots (dev4\<lparr>jm_slots := [empty_slot4\<lparr>submission_blocked_for_soft_stop := True\<rparr>]\<rparr>) ! nat 0)
   \<and> submitted_nr
        (jm_slots (dev4\<lparr>jm_slots := [empty_slot4\<lparr>submission_blocked_for_soft_stop := True\<rparr>]\<rparr>) ! nat 0) = 0
   \<and> reset_gpu (dev4\<lparr>jm_slots := [empty_slot4\<lparr>submission_blocked_for_soft_stop := True\<rparr>]\<rparr>)
        = KBASE_RESET_GPU_NOT_PENDING cfg4_5713
   \<and> kbasep_jm_is_submit_slots_free cfg4_5713
        (dev4\<lparr>jm_slots := [empty_slot4\<lparr>submission_blocked_for_soft_stop := True\<rparr>]\<rparr>) 0 = Inr False"
proof -
  define devb where
    "devb = dev4\<lparr>jm_slots := [empty_slot4\<lparr>submission_blocked_for_soft_stop := True\<rparr>]\<rparr>"
  have a: "BASE_HW_ISSUE_5713 cfg4_5713" by (simp add: cfg4_5713_def)
  have b: "submission_blocked_for_soft_stop (jm_slots devb ! nat 0)" by (simp add: devb_def)
  have c: "(0::int) \<le> 0" by simp
  have d: "0 < nr_job_slots devb" by (simp add: devb_def dev4_def)
  have e: "device_slots_ok devb" by (simp add: device_slots_ok_def devb_def dev4_def)
  have f: "submitted_nr (jm_slots devb ! nat 0) = 0" by (simp add: devb_def empty_slot4_def)
  have g: "reset_gpu devb = KBASE_RESET_GPU_NOT_PENDING cfg4_5713"
    by (simp add: devb_def dev4_def cfg4_5713_def cfg4_def)
  from is_submit_slots_free_soft_stop [OF a b c d e] a b f g
  show ?thesis unfolding devb_def by blast
qed

section \<open>Submit-slot queue: theorems\<close>

text \<open>
  C4. On a slot with \<open>submitted_nr < BASE_JM_SUBMIT_SLOTS\<close>, enqueuing an atom pointer
  and then dequeuing from the back succeeds, returns that pointer, and leaves
  \<open>submitted_nr\<close> and \<open>submitted_head\<close> as they were before the enqueue.
\<close>

theorem enqueue_dequeue_tail_undo:
  assumes "submit_slots_ok cfg k" and "slot_array_ok cfg slot"
    and "uint (submitted_nr slot) < BASE_JM_SUBMIT_SLOTS cfg"
  shows "\<exists>slot1 slot2.
           kbasep_jm_enqueue_submit_slot cfg slot katom = Inr slot1
         \<and> kbasep_jm_dequeue_tail_submit_slot cfg slot1 = Inr (katom, slot2)
         \<and> submitted_nr slot2 = submitted_nr slot
         \<and> submitted_head slot2 = submitted_head slot"
proof -
  define pos where "pos = (unat (submitted_head slot) + unat (submitted_nr slot))
                            mod nat (BASE_JM_SUBMIT_SLOTS cfg)"
  define slot1 where "slot1 = slot\<lparr>submitted_nr := submitted_nr slot + 1,
                                    submitted := (submitted slot)[pos := katom]\<rparr>"
  have enq: "kbasep_jm_enqueue_submit_slot cfg slot katom = Inr slot1"
    unfolding slot1_def pos_def by (rule enqueue_eq [OF assms])
  have arr1: "slot_array_ok cfg slot1"
    using assms(2) by (simp add: slot_array_ok_def slot1_def)
  have inb: "pos < length (submitted slot)"
    unfolding pos_def by (rule slot_pos_in_array [OF assms(1,2)])
  have f: "submitted_head slot1 = submitted_head slot"
    "submitted_nr slot1 - 1 = submitted_nr slot"
    "submitted slot1 ! pos = katom"
    using inb by (simp_all add: slot1_def)
  have deq: "kbasep_jm_dequeue_tail_submit_slot cfg slot1
               = Inr (katom, slot1\<lparr>submitted_nr := submitted_nr slot\<rparr>)"
    unfolding dequeue_tail_eq [OF assms(1) arr1] f pos_def [symmetric] ..
  have "submitted_nr (slot1\<lparr>submitted_nr := submitted_nr slot\<rparr>) = submitted_nr slot"
    and "submitted_head (slot1\<lparr>submitted_nr := submitted_nr slot\<rparr>) = submitted_head slot"
    by (simp_all add: slot1_def)
  with enq deq show ?thesis by blast
qed

theorem enqueue_dequeue_tail_undo_witness:
  "submit_slots_ok cfg4 2 \<and> slot_array_ok cfg4 empty_slot4
   \<and> uint (submitted_nr empty_slot4) < BASE_JM_SUBMIT_SLOTS cfg4
   \<and> (\<exists>slot1 slot2.
           kbasep_jm_enqueue_submit_slot cfg4 empty_slot4 (Some 7) = Inr slot1
         \<and> kbasep_jm_dequeue_tail_submit_slot cfg4 slot1 = Inr (Some 7, slot2)
         \<and> submitted_nr slot2 = submitted_nr empty_slot4
         \<and> submitted_head slot2 = submitted_head empty_slot4)"
proof -
  have c: "uint (submitted_nr empty_slot4) < BASE_JM_SUBMIT_SLOTS cfg4"
    by (simp add: empty_slot4_def cfg4_def)
  from enqueue_dequeue_tail_undo [OF cfg4_ok empty_slot4_ok c, of "Some 7"] cfg4_ok empty_slot4_ok c
  show ?thesis by blast
qed

text \<open>
  C5, as the code has it. The peek fails exactly when \<open>idx\<close> is not below
  \<open>BASE_JM_SUBMIT_SLOTS\<close>; it does not look at \<open>submitted_nr\<close>. For every \<open>idx\<close> below
  \<open>BASE_JM_SUBMIT_SLOTS\<close>, so for every offset below a count that is at most the capacity, it
  returns the element at index \<open>(submitted_head + idx) mod BASE_JM_SUBMIT_SLOTS\<close> and leaves
  the slot (count, head and array) unchanged.
\<close>

theorem peek_idx_contract:
  assumes "submit_slots_ok cfg k" and "slot_array_ok cfg slot"
  shows "(BASE_JM_SUBMIT_SLOTS cfg \<le> uint idx
            \<longrightarrow> kbasep_jm_peek_idx_submit_slot cfg slot idx = Inl AssertFailed)
       \<and> (uint idx < BASE_JM_SUBMIT_SLOTS cfg
            \<longrightarrow> kbasep_jm_peek_idx_submit_slot cfg slot idx =
                  Inr (submitted slot ! ((unat (submitted_head slot) + unat idx)
                                           mod nat (BASE_JM_SUBMIT_SLOTS cfg)), slot))"
proof (intro conjI impI)
  assume "BASE_JM_SUBMIT_SLOTS cfg \<le> uint idx"
  then show "kbasep_jm_peek_idx_submit_slot cfg slot idx = Inl AssertFailed"
    by (simp add: kbasep_jm_peek_idx_submit_slot_def)
next
  assume "uint idx < BASE_JM_SUBMIT_SLOTS cfg"
  then show "kbasep_jm_peek_idx_submit_slot cfg slot idx =
                  Inr (submitted slot ! ((unat (submitted_head slot) + unat idx)
                                           mod nat (BASE_JM_SUBMIT_SLOTS cfg)), slot)"
    by (rule peek_eq [OF assms])
qed

theorem peek_idx_contract_witness:
  "submit_slots_ok cfg4 2 \<and> slot_array_ok cfg4 stale_slot4
   \<and> BASE_JM_SUBMIT_SLOTS cfg4 \<le> uint (4::u8) \<and> uint (0::u8) < BASE_JM_SUBMIT_SLOTS cfg4
   \<and> kbasep_jm_peek_idx_submit_slot cfg4 stale_slot4 4 = Inl AssertFailed
   \<and> kbasep_jm_peek_idx_submit_slot cfg4 stale_slot4 0 = Inr (Some 7, stale_slot4)"
  using peek_idx_contract [OF cfg4_ok stale_slot4_ok, of 4]
        peek_idx_contract [OF cfg4_ok stale_slot4_ok, of 0] cfg4_ok stale_slot4_ok
  by (simp add: cfg4_def stale_slot4_def)

text \<open>
  C5 as stated fails: on \<open>stale_slot4\<close>, which holds one atom, the peek at offset 1 does
  not fail; it returns the pointer left behind by a dequeue from the back.
\<close>

theorem peek_idx_beyond_count_counterexample:
  "unat (submitted_nr stale_slot4) \<le> unat (1::u8)
   \<and> kbasep_jm_peek_idx_submit_slot cfg4 stale_slot4 1 = Inr (Some 8, stale_slot4)"
  by (simp add: kbasep_jm_peek_idx_submit_slot_def cfg4_def stale_slot4_def to_u8_def array_read_def)

text \<open>
  C6, as the code has it. The front dequeue tests the array cell at the head, not the
  count: it fails exactly when the element at \<open>submitted_head\<close> (modulo the capacity) is
  \<open>NULL\<close>. Otherwise it returns that element, sets the cell to \<open>NULL\<close>, advances
  \<open>submitted_head\<close> by one modulo \<open>BASE_JM_SUBMIT_SLOTS\<close> and decrements the \<open>u8\<close>
  \<open>submitted_nr\<close> by one.
\<close>

theorem dequeue_contract:
  assumes "submit_slots_ok cfg k" and "slot_array_ok cfg slot"
  shows "let pos = unat (submitted_head slot) mod nat (BASE_JM_SUBMIT_SLOTS cfg)
         in (submitted slot ! pos = None
               \<longrightarrow> kbasep_jm_dequeue_submit_slot cfg slot = Inl AssertFailed)
          \<and> (submitted slot ! pos \<noteq> None
               \<longrightarrow> (\<exists>slot1. kbasep_jm_dequeue_submit_slot cfg slot = Inr (submitted slot ! pos, slot1)
                      \<and> submitted slot1 = (submitted slot)[pos := None]
                      \<and> unat (submitted_head slot1)
                          = (unat (submitted_head slot) + 1) mod nat (BASE_JM_SUBMIT_SLOTS cfg)
                      \<and> submitted_nr slot1 = submitted_nr slot - 1
                      \<and> submission_blocked_for_soft_stop slot1 = submission_blocked_for_soft_stop slot))"
proof -
  define c where "c = nat (BASE_JM_SUBMIT_SLOTS cfg)"
  have "0 < c" using cap_pow2(2) [OF assms(1)] by (simp add: c_def)
  then have "(unat (submitted_head slot) + 1) mod c < c" by simp
  also have "c \<le> 128" using cap_pow2(3) [OF assms(1)] by (simp add: c_def)
  finally have "(unat (submitted_head slot) + 1) mod c < 2 ^ 8" by simp
  then have "unat (of_nat ((unat (submitted_head slot) + 1) mod c) :: u8)
               = (unat (submitted_head slot) + 1) mod c"
    by (simp add: unat_of_nat)
  then show ?thesis
    unfolding dequeue_eq [OF assms] c_def [symmetric] by (simp add: Let_def)
qed

theorem dequeue_contract_witness:
  "submit_slots_ok cfg4 2 \<and> slot_array_ok cfg4 stale_slot4 \<and> slot_array_ok cfg4 empty_slot4
   \<and> submitted empty_slot4 ! (unat (submitted_head empty_slot4) mod nat (BASE_JM_SUBMIT_SLOTS cfg4)) = None
   \<and> submitted stale_slot4 ! (unat (submitted_head stale_slot4) mod nat (BASE_JM_SUBMIT_SLOTS cfg4)) \<noteq> None
   \<and> kbasep_jm_dequeue_submit_slot cfg4 empty_slot4 = Inl AssertFailed
   \<and> (\<exists>slot1. kbasep_jm_dequeue_submit_slot cfg4 stale_slot4 = Inr (Some 7, slot1)
          \<and> submitted slot1 = [None, Some 8, None, None]
          \<and> unat (submitted_head slot1) = 1
          \<and> submitted_nr slot1 = 0)"
  using dequeue_contract [OF cfg4_ok stale_slot4_ok] dequeue_contract [OF cfg4_ok empty_slot4_ok]
    cfg4_ok stale_slot4_ok empty_slot4_ok
  by (auto simp: cfg4_def stale_slot4_def empty_slot4_def Let_def)

text \<open>
  C6 as stated fails: \<open>undone_slot4\<close> has count 0, and the front dequeue does not fail on
  it; it returns the pointer that the dequeue from the back left in the array, and the
  count becomes 255.
\<close>

theorem dequeue_empty_counterexample:
  "submitted_nr undone_slot4 = 0
   \<and> kbasep_jm_dequeue_submit_slot cfg4 undone_slot4
       = Inr (Some 7, \<lparr>submitted = [None, None, None, None], submitted_head = 1,
                       submitted_nr = 255, submission_blocked_for_soft_stop = False\<rparr>)"
  by (simp add: kbasep_jm_dequeue_submit_slot_def cfg4_def undone_slot4_def to_u8_def array_read_def)

text \<open>
  C7, as the code has it. On a slot with \<open>submitted_nr > 0\<close> the back dequeue does not
  fail, decrements \<open>submitted_nr\<close> by one and returns the element at the new last position,
  \<open>(submitted_head + new count) mod BASE_JM_SUBMIT_SLOTS\<close>; head and array are unchanged.
  The function has no check for the empty queue.
\<close>

theorem dequeue_tail_nonempty:
  assumes "submit_slots_ok cfg k" and "slot_array_ok cfg slot"
    and "submitted_nr slot \<noteq> 0"
  shows "kbasep_jm_dequeue_tail_submit_slot cfg slot =
           Inr (submitted slot ! ((unat (submitted_head slot) + (unat (submitted_nr slot) - 1))
                                    mod nat (BASE_JM_SUBMIT_SLOTS cfg)),
                slot\<lparr>submitted_nr := submitted_nr slot - 1\<rparr>)
       \<and> unat (submitted_nr slot - 1) = unat (submitted_nr slot) - 1"
proof -
  from assms(3) have "unat (submitted_nr slot - 1) = unat (submitted_nr slot) - 1"
    by (simp add: unat_minus_one)
  then show ?thesis unfolding dequeue_tail_eq [OF assms(1,2)] by simp
qed

theorem dequeue_tail_nonempty_witness:
  "submit_slots_ok cfg4 2 \<and> slot_array_ok cfg4 (stale_slot4\<lparr>submitted_nr := 2\<rparr>)
   \<and> submitted_nr (stale_slot4\<lparr>submitted_nr := 2\<rparr>) \<noteq> 0
   \<and> kbasep_jm_dequeue_tail_submit_slot cfg4 (stale_slot4\<lparr>submitted_nr := 2\<rparr>) = Inr (Some 8, stale_slot4)"
proof -
  have a: "slot_array_ok cfg4 (stale_slot4\<lparr>submitted_nr := 2\<rparr>)"
    by (simp add: slot_array_ok_def cfg4_def stale_slot4_def)
  have b: "submitted_nr (stale_slot4\<lparr>submitted_nr := 2\<rparr>) \<noteq> 0" by simp
  from dequeue_tail_nonempty [OF cfg4_ok a b] cfg4_ok a b
  show ?thesis by (simp add: cfg4_def stale_slot4_def)
qed

text \<open>
  C7 as stated fails: on the empty slot the back dequeue does not fail; it returns the
  content of cell 3 and leaves the count at 255.
\<close>

theorem dequeue_tail_empty_counterexample:
  "submitted_nr empty_slot4 = 0
   \<and> kbasep_jm_dequeue_tail_submit_slot cfg4 empty_slot4
       = Inr (None, empty_slot4\<lparr>submitted_nr := 255\<rparr>)"
  by code_simp

text \<open>
  C8. Starting from an initialised slot, every sequence of enqueues of atoms and
  dequeues from the front that never enqueues at count CAP and never dequeues at count 0
  runs without a failed call, and after each of its calls (after every prefix \<open>take m ops\<close>)
  \<open>kbasep_jm_nr_jobs_submitted\<close> returns the number of enqueues minus the number of dequeues
  made so far, which is at most CAP.
\<close>

theorem nr_jobs_submitted_counts:
  assumes "submit_slots_ok cfg k" and "slot_array_ok cfg slot"
    and "respects_capacity cfg 0 ops"
  shows "\<exists>slot1. run_ops cfg (kbasep_jm_init_submit_slot cfg slot) (take m ops) = Inr slot1
               \<and> uint (kbasep_jm_nr_jobs_submitted slot1)
                   = enqueues (take m ops) - dequeues (take m ops)
               \<and> uint (kbasep_jm_nr_jobs_submitted slot1) \<le> BASE_JM_SUBMIT_SLOTS cfg"
proof -
  have "respects_capacity cfg 0 (take m ops)"
    using assms(3) by (rule respects_capacity_take)
  from run_ops_count [OF assms(1) ring_inv_init [OF assms(1,2)] this]
  obtain slot1 where r: "run_ops cfg (kbasep_jm_init_submit_slot cfg slot) (take m ops) = Inr slot1"
    and inv: "ring_inv cfg slot1 (0 + enqueues (take m ops) - dequeues (take m ops))" by blast
  from inv have "uint (submitted_nr slot1) = enqueues (take m ops) - dequeues (take m ops)"
    and "enqueues (take m ops) - dequeues (take m ops) \<le> BASE_JM_SUBMIT_SLOTS cfg"
    unfolding ring_inv_def by simp_all
  with r show ?thesis by (simp add: kbasep_jm_nr_jobs_submitted_def)
qed

theorem nr_jobs_submitted_counts_witness:
  "submit_slots_ok cfg4 2 \<and> slot_array_ok cfg4 stale_slot4
   \<and> respects_capacity cfg4 0 [Enqueue 1, Enqueue 2, Dequeue, Enqueue 3, Enqueue 4, Enqueue 5, Dequeue]
   \<and> (\<exists>slot1. run_ops cfg4 (kbasep_jm_init_submit_slot cfg4 stale_slot4)
                  [Enqueue 1, Enqueue 2, Dequeue, Enqueue 3, Enqueue 4, Enqueue 5] = Inr slot1
               \<and> uint (kbasep_jm_nr_jobs_submitted slot1) = 4)
   \<and> (\<exists>slot1. run_ops cfg4 (kbasep_jm_init_submit_slot cfg4 stale_slot4)
                  [Enqueue 1, Enqueue 2, Dequeue, Enqueue 3, Enqueue 4, Enqueue 5, Dequeue] = Inr slot1
               \<and> uint (kbasep_jm_nr_jobs_submitted slot1) = 3
               \<and> uint (kbasep_jm_nr_jobs_submitted slot1) \<le> 4)"
proof -
  define ops where "ops = [Enqueue 1, Enqueue 2, Dequeue, Enqueue 3, Enqueue 4, Enqueue 5, Dequeue]"
  have r: "respects_capacity cfg4 0 ops"
    by (simp add: ops_def cfg4_def)
  have t6: "take 6 ops = [Enqueue 1, Enqueue 2, Dequeue, Enqueue 3, Enqueue 4, Enqueue 5]"
    and t7: "take 7 ops = ops"
    by (simp_all add: ops_def)
  have e6: "enqueues (take 6 ops) - dequeues (take 6 ops) = 4"
    and e7: "enqueues ops - dequeues ops = 3"
    and c: "BASE_JM_SUBMIT_SLOTS cfg4 = 4"
    by (simp_all add: ops_def cfg4_def)
  from nr_jobs_submitted_counts [OF cfg4_ok stale_slot4_ok r, of 6]
  have a: "\<exists>slot1. run_ops cfg4 (kbasep_jm_init_submit_slot cfg4 stale_slot4) (take 6 ops) = Inr slot1
               \<and> uint (kbasep_jm_nr_jobs_submitted slot1) = 4"
    unfolding e6 by blast
  from nr_jobs_submitted_counts [OF cfg4_ok stale_slot4_ok r, of 7]
  have b: "\<exists>slot1. run_ops cfg4 (kbasep_jm_init_submit_slot cfg4 stale_slot4) ops = Inr slot1
               \<and> uint (kbasep_jm_nr_jobs_submitted slot1) = 3
               \<and> uint (kbasep_jm_nr_jobs_submitted slot1) \<le> 4"
    unfolding t7 e7 c by blast
  from a b r cfg4_ok stale_slot4_ok show ?thesis unfolding t6 unfolding ops_def by blast
qed

text \<open>
  C10. After \<open>kbasep_jm_init_submit_slot\<close> the head is 0, which lies below the capacity.
  Enqueue, dequeue from the back and peek return the slot with the head they were given.
  The front dequeue returns the advanced head masked back into range: the new head is
  \<open>(submitted_head + 1) mod BASE_JM_SUBMIT_SLOTS\<close>, which lies below
  \<open>BASE_JM_SUBMIT_SLOTS\<close> whatever the head was before. So every operation keeps the head
  in the range from 0 to the capacity.
\<close>

theorem submitted_head_in_range:
  assumes "submit_slots_ok cfg k"
  shows "submitted_head (kbasep_jm_init_submit_slot cfg slot) = 0
       \<and> uint (submitted_head (kbasep_jm_init_submit_slot cfg slot)) < BASE_JM_SUBMIT_SLOTS cfg
       \<and> (\<forall>slot1. kbasep_jm_enqueue_submit_slot cfg slot katom = Inr slot1
              \<longrightarrow> submitted_head slot1 = submitted_head slot)
       \<and> (\<forall>a slot1. kbasep_jm_dequeue_tail_submit_slot cfg slot = Inr (a, slot1)
              \<longrightarrow> submitted_head slot1 = submitted_head slot)
       \<and> (\<forall>a slot1. kbasep_jm_peek_idx_submit_slot cfg slot idx = Inr (a, slot1)
              \<longrightarrow> submitted_head slot1 = submitted_head slot)
       \<and> (\<forall>a slot1. kbasep_jm_dequeue_submit_slot cfg slot = Inr (a, slot1)
              \<longrightarrow> unat (submitted_head slot1)
                    = (unat (submitted_head slot) + 1) mod nat (BASE_JM_SUBMIT_SLOTS cfg)
                  \<and> uint (submitted_head slot1) < BASE_JM_SUBMIT_SLOTS cfg)"
proof (intro conjI allI impI)
  show i: "submitted_head (kbasep_jm_init_submit_slot cfg slot) = 0"
    by (simp add: kbasep_jm_init_submit_slot_def Let_def)
  show "uint (submitted_head (kbasep_jm_init_submit_slot cfg slot)) < BASE_JM_SUBMIT_SLOTS cfg"
    unfolding i using cap_pow2(2) [OF assms] by simp
next
  fix slot1
  assume "kbasep_jm_enqueue_submit_slot cfg slot katom = Inr slot1"
  then show "submitted_head slot1 = submitted_head slot"
    by (auto simp: kbasep_jm_enqueue_submit_slot_def Let_def split: if_splits)
next
  fix a slot1
  assume "kbasep_jm_dequeue_tail_submit_slot cfg slot = Inr (a, slot1)"
  then show "submitted_head slot1 = submitted_head slot"
    by (auto simp: kbasep_jm_dequeue_tail_submit_slot_def Let_def split: sum.splits)
next
  fix a slot1
  assume "kbasep_jm_peek_idx_submit_slot cfg slot idx = Inr (a, slot1)"
  then show "submitted_head slot1 = submitted_head slot"
    by (auto simp: kbasep_jm_peek_idx_submit_slot_def Let_def split: if_splits sum.splits)
next
  fix a slot1
  assume "kbasep_jm_dequeue_submit_slot cfg slot = Inr (a, slot1)"
  then have h: "submitted_head slot1
                  = to_u8 ((uint (submitted_head slot) + 1) AND BASE_JM_SUBMIT_SLOTS_MASK cfg)"
    by (auto simp: kbasep_jm_dequeue_submit_slot_def Let_def split: if_splits sum.splits)
  show adv: "unat (submitted_head slot1)
               = (unat (submitted_head slot) + 1) mod nat (BASE_JM_SUBMIT_SLOTS cfg)"
    unfolding h by (simp add: slot_pos [OF assms] nat_add_distrib)
  have "0 < nat (BASE_JM_SUBMIT_SLOTS cfg)" using cap_pow2(2) [OF assms] by simp
  then have "(unat (submitted_head slot) + 1) mod nat (BASE_JM_SUBMIT_SLOTS cfg)
               < nat (BASE_JM_SUBMIT_SLOTS cfg)"
    by (rule mod_less_divisor)
  then have "unat (submitted_head slot1) < nat (BASE_JM_SUBMIT_SLOTS cfg)"
    unfolding adv .
  then have "int (unat (submitted_head slot1)) < BASE_JM_SUBMIT_SLOTS cfg" by linarith
  then show "uint (submitted_head slot1) < BASE_JM_SUBMIT_SLOTS cfg" by simp
qed

theorem submitted_head_in_range_witness:
  "submit_slots_ok cfg4 2
   \<and> submitted_head (kbasep_jm_init_submit_slot cfg4 last_cell_slot4) = 0
   \<and> (\<exists>slot1. kbasep_jm_enqueue_submit_slot cfg4 last_cell_slot4 (Some 6) = Inr slot1
          \<and> submitted_head slot1 = 3)
   \<and> (\<exists>a slot1. kbasep_jm_dequeue_tail_submit_slot cfg4 last_cell_slot4 = Inr (a, slot1)
          \<and> submitted_head slot1 = 3)
   \<and> (\<exists>a slot1. kbasep_jm_peek_idx_submit_slot cfg4 last_cell_slot4 0 = Inr (a, slot1)
          \<and> submitted_head slot1 = 3)
   \<and> (\<exists>a slot1. kbasep_jm_dequeue_submit_slot cfg4 last_cell_slot4 = Inr (a, slot1)
          \<and> unat (submitted_head slot1) = 0
          \<and> uint (submitted_head slot1) < BASE_JM_SUBMIT_SLOTS cfg4)
   \<and> (\<exists>a slot1. kbasep_jm_dequeue_submit_slot cfg4 stale_slot4 = Inr (a, slot1)
          \<and> unat (submitted_head slot1) = 1
          \<and> uint (submitted_head slot1) < BASE_JM_SUBMIT_SLOTS cfg4)"
proof -
  have "uint (submitted_nr last_cell_slot4) < BASE_JM_SUBMIT_SLOTS cfg4"
    by (simp add: cfg4_def last_cell_slot4_def)
  then have e: "\<exists>slot1. kbasep_jm_enqueue_submit_slot cfg4 last_cell_slot4 (Some 6) = Inr slot1"
    by (simp add: enqueue_eq [OF cfg4_ok last_cell_slot4_ok])
  have t: "\<exists>a slot1. kbasep_jm_dequeue_tail_submit_slot cfg4 last_cell_slot4 = Inr (a, slot1)"
    by (simp add: dequeue_tail_eq [OF cfg4_ok last_cell_slot4_ok])
  have "uint (0::u8) < BASE_JM_SUBMIT_SLOTS cfg4" by (simp add: cfg4_def)
  then have p: "\<exists>a slot1. kbasep_jm_peek_idx_submit_slot cfg4 last_cell_slot4 0 = Inr (a, slot1)"
    by (simp add: peek_eq [OF cfg4_ok last_cell_slot4_ok])
  have "submitted last_cell_slot4
          ! (unat (submitted_head last_cell_slot4) mod nat (BASE_JM_SUBMIT_SLOTS cfg4)) \<noteq> None"
    by (simp add: cfg4_def last_cell_slot4_def)
  then have d: "\<exists>a slot1. kbasep_jm_dequeue_submit_slot cfg4 last_cell_slot4 = Inr (a, slot1)"
    by (simp add: dequeue_eq [OF cfg4_ok last_cell_slot4_ok] Let_def)
  have "submitted stale_slot4
          ! (unat (submitted_head stale_slot4) mod nat (BASE_JM_SUBMIT_SLOTS cfg4)) \<noteq> None"
    by (simp add: cfg4_def stale_slot4_def)
  then have d2: "\<exists>a slot1. kbasep_jm_dequeue_submit_slot cfg4 stale_slot4 = Inr (a, slot1)"
    by (simp add: dequeue_eq [OF cfg4_ok stale_slot4_ok] Let_def)
  have h: "submitted_head last_cell_slot4 = 3" by (simp add: last_cell_slot4_def)
  have m: "(unat (submitted_head last_cell_slot4) + 1) mod nat (BASE_JM_SUBMIT_SLOTS cfg4) = 0"
    by (simp add: cfg4_def last_cell_slot4_def)
  have m2: "(unat (submitted_head stale_slot4) + 1) mod nat (BASE_JM_SUBMIT_SLOTS cfg4) = 1"
    by (simp add: cfg4_def stale_slot4_def)
  note r1 = submitted_head_in_range [OF cfg4_ok, of last_cell_slot4 "Some 6" 0]
  note r2 = submitted_head_in_range [OF cfg4_ok, of stale_slot4 "Some 6" 0]
  have a: "submitted_head (kbasep_jm_init_submit_slot cfg4 last_cell_slot4) = 0"
    using r1 by (rule conjunct1)
  have b: "\<forall>slot1. kbasep_jm_enqueue_submit_slot cfg4 last_cell_slot4 (Some 6) = Inr slot1
              \<longrightarrow> submitted_head slot1 = 3"
    using r1 [THEN conjunct2, THEN conjunct2, THEN conjunct1] unfolding h .
  have c: "\<forall>a slot1. kbasep_jm_dequeue_tail_submit_slot cfg4 last_cell_slot4 = Inr (a, slot1)
              \<longrightarrow> submitted_head slot1 = 3"
    using r1 [THEN conjunct2, THEN conjunct2, THEN conjunct2, THEN conjunct1] unfolding h .
  have f: "\<forall>a slot1. kbasep_jm_peek_idx_submit_slot cfg4 last_cell_slot4 0 = Inr (a, slot1)
              \<longrightarrow> submitted_head slot1 = 3"
    using r1 [THEN conjunct2, THEN conjunct2, THEN conjunct2, THEN conjunct2, THEN conjunct1]
    unfolding h .
  have g: "\<forall>a slot1. kbasep_jm_dequeue_submit_slot cfg4 last_cell_slot4 = Inr (a, slot1)
              \<longrightarrow> unat (submitted_head slot1) = 0
                  \<and> uint (submitted_head slot1) < BASE_JM_SUBMIT_SLOTS cfg4"
    using r1 [THEN conjunct2, THEN conjunct2, THEN conjunct2, THEN conjunct2, THEN conjunct2]
    unfolding m .
  have g2: "\<forall>a slot1. kbasep_jm_dequeue_submit_slot cfg4 stale_slot4 = Inr (a, slot1)
              \<longrightarrow> unat (submitted_head slot1) = 1
                  \<and> uint (submitted_head slot1) < BASE_JM_SUBMIT_SLOTS cfg4"
    using r2 [THEN conjunct2, THEN conjunct2, THEN conjunct2, THEN conjunct2, THEN conjunct2]
    unfolding m2 .
  from e b have e': "\<exists>slot1. kbasep_jm_enqueue_submit_slot cfg4 last_cell_slot4 (Some 6) = Inr slot1
          \<and> submitted_head slot1 = 3" by blast
  from t c have t': "\<exists>a slot1. kbasep_jm_dequeue_tail_submit_slot cfg4 last_cell_slot4 = Inr (a, slot1)
          \<and> submitted_head slot1 = 3" by blast
  from p f have p': "\<exists>a slot1. kbasep_jm_peek_idx_submit_slot cfg4 last_cell_slot4 0 = Inr (a, slot1)
          \<and> submitted_head slot1 = 3" by blast
  from d g have d': "\<exists>a slot1. kbasep_jm_dequeue_submit_slot cfg4 last_cell_slot4 = Inr (a, slot1)
          \<and> unat (submitted_head slot1) = 0
          \<and> uint (submitted_head slot1) < BASE_JM_SUBMIT_SLOTS cfg4" by blast
  from d2 g2 have d2': "\<exists>a slot1. kbasep_jm_dequeue_submit_slot cfg4 stale_slot4 = Inr (a, slot1)
          \<and> unat (submitted_head slot1) = 1
          \<and> uint (submitted_head slot1) < BASE_JM_SUBMIT_SLOTS cfg4" by blast
  from cfg4_ok a e' t' p' d' d2' show ?thesis by (intro conjI)
qed

end
